theory Spec2Isabelle
  imports Main "HOL-Library.Word"
begin

unbundle bit_operations_syntax

section \<open>The static world map of the game server\<close>

text \<open>
  A shallow embedding of the server's \<^verbatim>\<open>Map\<close> class (the map facade): coordinate
  indexing, collision queries, door linking, rotated-tile decoding and the area registry.

  JavaScript numbers are modelled as \<^typ>\<open>int\<close>: every number the map handles (grid
  coordinates, tile indices, tile identifiers, door identifiers) is an integer read from
  the JSON dataset. Bitwise operators of JavaScript work on the 32-bit two's complement
  reading of their operands; that conversion is written out below. The value
  \<^verbatim>\<open>undefined\<close> of a missing array cell, table entry or optional field is \<open>None\<close>.
\<close>

subsection \<open>JavaScript arithmetic on integer-valued numbers\<close>

text \<open>\<^verbatim>\<open>ToInt32\<close>: the operand of a bitwise operator, reduced modulo \<open>2 ^ 32\<close> into the
  signed 32-bit range.\<close>

definition toInt32 :: "int \<Rightarrow> int" where
  "toInt32 n = signed_take_bit 31 n"

text \<open>The operators \<^verbatim>\<open>&\<close>, \<^verbatim>\<open>|\<close> and \<^verbatim>\<open>~\<close>.\<close>

definition js_and :: "int \<Rightarrow> int \<Rightarrow> int" where
  "js_and a b = toInt32 a AND toInt32 b"

definition js_or :: "int \<Rightarrow> int \<Rightarrow> int" where
  "js_or a b = toInt32 a OR toInt32 b"

definition js_not :: "int \<Rightarrow> int" where
  "js_not a = NOT (toInt32 a)"

text \<open>The operator \<^verbatim>\<open>%\<close> on integers with a non-zero divisor: the remainder takes the
  sign of the dividend (truncated division).\<close>

definition js_rem :: "int \<Rightarrow> int \<Rightarrow> int" where
  "js_rem a b = sgn a * (\<bar>a\<bar> mod \<bar>b\<bar>)"

text \<open>The operator \<^verbatim>\<open>||\<close> applied to an optional string or number and a default:
  \<^verbatim>\<open>undefined\<close>, the empty string and \<open>0\<close> are falsy and give the default.\<close>

definition or_string :: "string option \<Rightarrow> string \<Rightarrow> string" where
  "or_string v dflt = (case v of None \<Rightarrow> dflt | Some s \<Rightarrow> if s = [] then dflt else s)"

definition or_number :: "int option \<Rightarrow> int \<Rightarrow> int" where
  "or_number v dflt = (case v of None \<Rightarrow> dflt | Some n \<Rightarrow> if n = 0 then dflt else n)"

text \<open>The test \<^verbatim>\<open>!v\<close> on an optional number.\<close>

definition falsy_number :: "int option \<Rightarrow> bool" where
  "falsy_number v \<longleftrightarrow> v = None \<or> v = Some 0"

subsection \<open>Data model\<close>

text \<open>\<^verbatim>\<open>Tile = number | number[]\<close>: a cell of the tile array is one identifier or a
  stack of identifiers.\<close>

datatype tile = Single int | Stack "int list"

text \<open>\<^verbatim>\<open>RotatedTile\<close>, the decoded form of a flipped identifier, and
  \<^verbatim>\<open>RegionTile = number | RotatedTile | RegionTile[]\<close>.\<close>

record rotated_tile =
  rt_tileId :: int
  rt_h :: bool
  rt_v :: bool
  rt_d :: bool

datatype region_tile = TileId int | Rotated rotated_tile | Tiles "region_tile list"

text \<open>\<^verbatim>\<open>ProcessedArea\<close>, restricted to the fields the map reads from a raw door; the
  fields marked optional in the dataset are options.\<close>

record processed_area =
  pa_id :: int
  pa_x :: int
  pa_y :: int
  pa_destination :: "int option"
  pa_orientation :: "string option"
  pa_quest :: "string option"
  pa_achievement :: "string option"
  pa_stage :: "int option"

text \<open>\<^verbatim>\<open>ProcessedDoor\<close>, an entry of the door table.\<close>

record processed_door =
  pd_x :: int
  pd_y :: int
  pd_orientation :: string
  pd_quest :: string
  pd_achievement :: string
  pd_stage :: int

text \<open>\<^verbatim>\<open>Position\<close>.\<close>

record position =
  pos_x :: int
  pos_y :: int

text \<open>
  Modelled from the spec: the \<^verbatim>\<open>Areas\<close> group class, imported from the module
  \<^verbatim>\<open>./areas/areas\<close>, whose source is not at hand. The spec describes it as a wrapper
  constructed from one raw area group; the model keeps the key of the group class that
  built it and the raw areas it was built from.
\<close>

datatype areas_group = Areas string "processed_area list"

text \<open>\<^verbatim>\<open>ProcessedMap\<close>, the parsed dataset \<^verbatim>\<open>map\<close>. The member \<^verbatim>\<open>areas\<close> is a
  JSON object, kept as the list of its keys and groups in the object's own order.\<close>

record processed_map =
  pm_version :: int
  pm_width :: int
  pm_height :: int
  pm_tileSize :: int
  pm_data :: "tile list"
  pm_collisions :: "int list option"
  pm_entities :: "int \<rightharpoonup> string"
  pm_plateau :: "int \<rightharpoonup> int"
  pm_objects :: "int list"
  pm_cursors :: "int \<rightharpoonup> string"
  pm_areas :: "(string \<times> processed_area list) list"

text \<open>The fields of the \<^verbatim>\<open>Map\<close> object. The members \<^verbatim>\<open>world\<close>, \<^verbatim>\<open>regions\<close>,
  \<^verbatim>\<open>grids\<close> and \<^verbatim>\<open>trees\<close> belong to collaborators in other modules and are left
  out; no function below reads them.\<close>

record game_map =
  version :: int
  width :: int
  height :: int
  tileSize :: int
  data :: "tile list"
  collisions :: "int list"
  entities :: "int \<rightharpoonup> string"
  plateau :: "int \<rightharpoonup> int"
  objects :: "int list"
  cursors :: "int \<rightharpoonup> string"
  doors :: "int \<rightharpoonup> processed_door"
  warps :: "processed_area list"
  lights :: "processed_area list"
  chest :: "processed_area list"
  areas :: "string \<rightharpoonup> areas_group"

text \<open>Reading \<^verbatim>\<open>this.data[index]\<close>: a cell outside the array is \<^verbatim>\<open>undefined\<close>.\<close>

definition data_at :: "game_map \<Rightarrow> int \<Rightarrow> tile option" where
  "data_at m index =
     (if 0 \<le> index \<and> index < int (length (data m)) then Some (data m ! nat index) else None)"

text \<open>The test \<^verbatim>\<open>!cell\<close>: \<^verbatim>\<open>undefined\<close> and the number \<open>0\<close> are falsy, an array (even
  an empty one) is truthy.\<close>

fun falsy :: "tile option \<Rightarrow> bool" where
  "falsy None = True"
| "falsy (Some (Single n)) = (n = 0)"
| "falsy (Some (Stack ns)) = False"

subsection \<open>Coordinate codec\<close>

definition coordToIndex :: "game_map \<Rightarrow> int \<Rightarrow> int \<Rightarrow> int" where
  "coordToIndex m x y = y * width m + x"

text \<open>\<^verbatim>\<open>indexToCoord\<close> divides by the width. With a width of \<open>0\<close> the source yields
  \<^verbatim>\<open>NaN\<close> and an infinity, which are no grid coordinates: the model returns \<open>None\<close>
  there.\<close>

definition indexToCoord :: "game_map \<Rightarrow> int \<Rightarrow> position option" where
  "indexToCoord m index =
     (if width m = 0 then None
      else Some \<lparr>pos_x = js_rem index (width m), pos_y = index div width m\<rparr>)"

subsection \<open>Collision index\<close>

definition isOutOfBounds :: "game_map \<Rightarrow> int \<Rightarrow> int \<Rightarrow> bool" where
  "isOutOfBounds m x y \<longleftrightarrow> x < 0 \<or> x \<ge> width m \<or> y < 0 \<or> y \<ge> height m"

definition isCollisionIndex :: "game_map \<Rightarrow> int \<Rightarrow> bool" where
  "isCollisionIndex m index \<longleftrightarrow> index \<in> set (collisions m)"

definition isColliding :: "game_map \<Rightarrow> int \<Rightarrow> int \<Rightarrow> bool" where
  "isColliding m x y =
     (if isOutOfBounds m x y then True
      else let index = coordToIndex m x y
           in falsy (data_at m index) \<or> isCollisionIndex m index)"

subsection \<open>Rotated tiles\<close>

text \<open>
  Modelled from the spec: the constants \<^verbatim>\<open>Modules.MapFlags\<close>, declared in the
  package \<^verbatim>\<open>@kaetram/common/network\<close>, whose source is not at hand. The spec places
  the three flags on the three highest-order bits of a 32-bit identifier; the source
  compares against the diagonal flag as the lowest of them and refers to the tile format
  of the map editor, in which the horizontal flag is bit 31, the vertical flag bit 30 and
  the diagonal flag bit 29.
\<close>

definition DIAGONAL_FLAG :: int where
  "DIAGONAL_FLAG = 0x20000000"

definition VERTICAL_FLAG :: int where
  "VERTICAL_FLAG = 0x40000000"

definition HORIZONTAL_FLAG :: int where
  "HORIZONTAL_FLAG = 0x80000000"

definition isFlipped :: "int \<Rightarrow> bool" where
  "isFlipped tileId \<longleftrightarrow> tileId > DIAGONAL_FLAG"

definition getFlippedTile :: "int \<Rightarrow> rotated_tile" where
  "getFlippedTile tileId =
     (let h = (js_and tileId HORIZONTAL_FLAG \<noteq> 0);
          v = (js_and tileId VERTICAL_FLAG \<noteq> 0);
          d = (js_and tileId DIAGONAL_FLAG \<noteq> 0);
          tileId' = js_and tileId
            (js_not (js_or (js_or DIAGONAL_FLAG VERTICAL_FLAG) HORIZONTAL_FLAG))
      in \<lparr>rt_tileId = tileId', rt_h = h, rt_v = v, rt_d = d\<rparr>)"

text \<open>
  The encoder the spec speaks of (the source only decodes): the flags of a rotated tile
  put back onto its base identifier with the operator \<^verbatim>\<open>|\<close>.
\<close>

definition applyFlags :: "rotated_tile \<Rightarrow> int" where
  "applyFlags t =
     js_or (js_or (js_or (rt_tileId t) (if rt_h t then HORIZONTAL_FLAG else 0))
                  (if rt_v t then VERTICAL_FLAG else 0))
           (if rt_d t then DIAGONAL_FLAG else 0)"

subsection \<open>Iterating a cell\<close>

text \<open>\<^verbatim>\<open>forEachTile\<close> calls the callback on the scalar, or on each element of the array
  in order. The callbacks of this class assign to a local variable of their caller; that
  variable is the state \<open>s\<close> passed through the calls. No callback returns \<^verbatim>\<open>false\<close>,
  so the iteration never stops early.\<close>

fun forEachTile :: "tile \<Rightarrow> (int \<Rightarrow> 's \<Rightarrow> 's) \<Rightarrow> 's \<Rightarrow> 's" where
  "forEachTile (Stack ns) callback s = fold callback ns s"
| "forEachTile (Single n) callback s = callback n s"

text \<open>The identifiers \<^verbatim>\<open>forEachTile\<close> hands to its callback, in the order of the calls:
  the iteration run with a callback that records its argument.\<close>

definition visited :: "tile \<Rightarrow> int list" where
  "visited cell = forEachTile cell (\<lambda>tileId seen. seen @ [tileId]) []"

definition isObject :: "game_map \<Rightarrow> tile \<Rightarrow> bool" where
  "isObject m cell =
     forEachTile cell (\<lambda>tileId isObj. if tileId \<in> set (objects m) then True else isObj) False"

definition getCursor :: "game_map \<Rightarrow> tile \<Rightarrow> string" where
  "getCursor m cell =
     forEachTile cell
       (\<lambda>tileId cursor. case cursors m tileId of Some c \<Rightarrow> c | None \<Rightarrow> cursor) []"

definition getPlateauLevel :: "game_map \<Rightarrow> int \<Rightarrow> int \<Rightarrow> int" where
  "getPlateauLevel m x y =
     (let index = coordToIndex m x y
      in case plateau m index of None \<Rightarrow> 0 | Some level \<Rightarrow> level)"

text \<open>\<^verbatim>\<open>push\<close> on the array being built. \<^verbatim>\<open>getTileData\<close> pushes only when it started
  from an empty array, so the second equation is never reached.\<close>

fun push :: "region_tile \<Rightarrow> region_tile \<Rightarrow> region_tile" where
  "push (Tiles ts) t = Tiles (ts @ [t])"
| "push p t = p"

fun isArray :: "tile \<Rightarrow> bool" where
  "isArray (Stack ns) = True"
| "isArray (Single n) = False"

definition getTileData :: "game_map \<Rightarrow> int \<Rightarrow> region_tile" where
  "getTileData m index =
     (case data_at m index of
        None \<Rightarrow> Tiles []
      | Some cell \<Rightarrow>
          if falsy (Some cell) then Tiles []
          else let parsedData = (if isArray cell then Tiles [] else TileId 0)
               in forEachTile cell
                    (\<lambda>tileId parsedData.
                       let tile = (if isFlipped tileId then Rotated (getFlippedTile tileId)
                                   else TileId tileId)
                       in if isArray cell then push parsedData tile else tile)
                    parsedData)"

subsection \<open>Area registry\<close>

text \<open>
  \<^verbatim>\<open>loadAreas\<close> visits the groups of \<^verbatim>\<open>map.areas\<close> and registers, under the group's
  own key, an instance of the class that \<^verbatim>\<open>AreasIndex\<close> holds for that key. The table
  \<^verbatim>\<open>AreasIndex\<close> is declared in the module \<^verbatim>\<open>./areas\<close>, whose source is not at hand:
  it is the parameter \<open>areasIndex\<close>, the list of the keys it has.
\<close>

definition loadAreas :: "string list \<Rightarrow> processed_map \<Rightarrow> game_map \<Rightarrow> game_map" where
  "loadAreas areasIndex pm m =
     fold (\<lambda>(key, area) m'.
             if key \<notin> set areasIndex then m'
             else m'\<lparr>areas := (areas m')(key \<mapsto> Areas key area)\<rparr>)
          (pm_areas pm) m"

definition getChestAreas :: "game_map \<Rightarrow> areas_group option" where
  "getChestAreas m = areas m ''chests''"

definition getDynamicAreas :: "game_map \<Rightarrow> areas_group option" where
  "getDynamicAreas m = areas m ''dynamic''"

subsection \<open>Doors\<close>

text \<open>The group \<^verbatim>\<open>map.areas.<key>\<close>; iterating a missing group visits nothing.\<close>

definition areas_of :: "processed_map \<Rightarrow> string \<Rightarrow> processed_area list" where
  "areas_of pm key = (case map_of (pm_areas pm) key of None \<Rightarrow> [] | Some as \<Rightarrow> as)"

text \<open>
  What linking the doors produces: the door table, and the lines written to the log.
  The source calls no logger anywhere, so no branch below extends the log.
\<close>

record link_state =
  ls_doors :: "int \<rightharpoonup> processed_door"
  ls_log :: "string list"

text \<open>The body of the loop of \<^verbatim>\<open>loadDoors\<close> for one raw door.\<close>

definition linkDoor ::
  "game_map \<Rightarrow> processed_area list \<Rightarrow> processed_area \<Rightarrow> link_state \<Rightarrow> link_state" where
  "linkDoor m doorsClone door st =
     (if falsy_number (pa_destination door) then st
      else let index = coordToIndex m (pa_x door) (pa_y door);
               destination = find (\<lambda>cloneDoor. pa_destination door = Some (pa_id cloneDoor))
                                  doorsClone
           in case destination of
                None \<Rightarrow> st
              | Some dest \<Rightarrow>
                  st\<lparr>ls_doors := (ls_doors st)(index \<mapsto>
                       \<lparr>pd_x = pa_x dest,
                        pd_y = pa_y dest,
                        pd_orientation = or_string (pa_orientation dest) ''d'',
                        pd_quest = or_string (pa_quest door) [],
                        pd_achievement = or_string (pa_achievement door) [],
                        pd_stage = or_number (pa_stage door) 0\<rparr>)\<rparr>)"

text \<open>\<^verbatim>\<open>_.cloneDeep\<close> copies a value; values of HOL have no identity to copy.\<close>

definition cloneDeep :: "'a \<Rightarrow> 'a" where
  "cloneDeep v = v"

definition linkDoors :: "game_map \<Rightarrow> processed_area list \<Rightarrow> link_state" where
  "linkDoors m rawDoors =
     (let doorsClone = cloneDeep rawDoors
      in fold (linkDoor m doorsClone) rawDoors \<lparr>ls_doors = Map.empty, ls_log = []\<rparr>)"

text \<open>
  The vocabulary of the statements about linking. A raw door is resolvable in a list when
  it declares a destination other than \<open>0\<close> that is the identifier of a door of the list;
  its tile index is \<^verbatim>\<open>coordToIndex\<close> of its own coordinates.
\<close>

definition resolvable :: "processed_area list \<Rightarrow> processed_area \<Rightarrow> bool" where
  "resolvable ds door =
     (case pa_destination door of None \<Rightarrow> False | Some k \<Rightarrow> k \<noteq> 0 \<and> k \<in> pa_id ` set ds)"

abbreviation tileIndex :: "game_map \<Rightarrow> processed_area \<Rightarrow> int" where
  "tileIndex m door \<equiv> coordToIndex m (pa_x door) (pa_y door)"

text \<open>\<^verbatim>\<open>loadDoors\<close>: the map with its door table, and the log lines written.\<close>

definition loadDoors :: "processed_map \<Rightarrow> game_map \<Rightarrow> game_map \<times> string list" where
  "loadDoors pm m =
     (let st = linkDoors m (areas_of pm ''doors'')
      in (m\<lparr>doors := ls_doors st\<rparr>, ls_log st))"

text \<open>The field initialisers and the constructor.\<close>

definition init_Map :: "processed_map \<Rightarrow> game_map" where
  "init_Map pm =
     \<lparr>version = pm_version pm, width = pm_width pm, height = pm_height pm,
      tileSize = pm_tileSize pm, data = pm_data pm,
      collisions = (case pm_collisions pm of None \<Rightarrow> [] | Some c \<Rightarrow> c),
      entities = pm_entities pm, plateau = pm_plateau pm, objects = pm_objects pm,
      cursors = pm_cursors pm, doors = Map.empty,
      warps = areas_of pm ''warps'', lights = areas_of pm ''lights'',
      chest = areas_of pm ''chest'', areas = Map.empty\<rparr>"

definition construct :: "string list \<Rightarrow> processed_map \<Rightarrow> game_map \<times> string list" where
  "construct areasIndex pm = loadDoors pm (loadAreas areasIndex pm (init_Map pm))"

definition new_Map :: "string list \<Rightarrow> processed_map \<Rightarrow> game_map" where
  "new_Map areasIndex pm = fst (construct areasIndex pm)"

definition isDoor :: "game_map \<Rightarrow> int \<Rightarrow> int \<Rightarrow> bool" where
  "isDoor m x y \<longleftrightarrow> doors m (coordToIndex m x y) \<noteq> None"

definition getDoor :: "game_map \<Rightarrow> int \<Rightarrow> int \<Rightarrow> processed_door option" where
  "getDoor m x y = doors m (coordToIndex m x y)"

subsection \<open>Example data\<close>

text \<open>A raw area with the mandatory fields only: \<^verbatim>\<open>{id, x, y}\<close>.\<close>

definition rawArea :: "int \<Rightarrow> int \<Rightarrow> int \<Rightarrow> processed_area" where
  "rawArea i x y =
     \<lparr>pa_id = i, pa_x = x, pa_y = y, pa_destination = None, pa_orientation = None,
      pa_quest = None, pa_achievement = None, pa_stage = None\<rparr>"

text \<open>The raw doors of the spec's example:
  \<^verbatim>\<open>[{id:1, x:5, y:5, destination:2}, {id:2, x:10, y:10, orientation:'u'}]\<close>.\<close>

definition exampleDoors :: "processed_area list" where
  "exampleDoors =
     [(rawArea 1 5 5)\<lparr>pa_destination := Some 2\<rparr>,
      (rawArea 2 10 10)\<lparr>pa_orientation := Some ''u''\<rparr>]"

text \<open>A dataset of 20 by 20 tiles with given doors and one static chest area, following
  the schema of the spec, and a table \<^verbatim>\<open>AreasIndex\<close> that has a class for every key.\<close>

definition datasetWithDoors :: "processed_area list \<Rightarrow> processed_map" where
  "datasetWithDoors ds =
     \<lparr>pm_version = 1, pm_width = 20, pm_height = 20, pm_tileSize = 16,
      pm_data = [], pm_collisions = None, pm_entities = Map.empty, pm_plateau = Map.empty,
      pm_objects = [7], pm_cursors = Map.empty,
      pm_areas = [(''warps'', []), (''lights'', []), (''chest'', [rawArea 30 3 4]),
                  (''dynamic'', []), (''doors'', ds)]\<rparr>"

definition exampleDataset :: processed_map where
  "exampleDataset = datasetWithDoors exampleDoors"

text \<open>Two doors on the same tile \<open>(5, 5)\<close>, leading to different places:
  \<^verbatim>\<open>[{id:1, x:5, y:5, destination:2}, {id:2, x:10, y:10, orientation:'u'},
    {id:3, x:5, y:5, destination:4}, {id:4, x:1, y:1}]\<close>.\<close>

definition overlappingDoors :: "processed_area list" where
  "overlappingDoors =
     [(rawArea 1 5 5)\<lparr>pa_destination := Some 2\<rparr>,
      (rawArea 2 10 10)\<lparr>pa_orientation := Some ''u''\<rparr>,
      (rawArea 3 5 5)\<lparr>pa_destination := Some 4\<rparr>,
      rawArea 4 1 1]"

text \<open>A door whose destination is the door with identifier \<open>0\<close>:
  \<^verbatim>\<open>[{id:1, x:5, y:5, destination:0}, {id:0, x:10, y:10}]\<close>.\<close>

definition zeroIdDoors :: "processed_area list" where
  "zeroIdDoors = [(rawArea 1 5 5)\<lparr>pa_destination := Some 0\<rparr>, rawArea 0 10 10]"


definition exampleAreasIndex :: "string list" where
  "exampleAreasIndex = [''warps'', ''lights'', ''chest'', ''chests'', ''dynamic'', ''doors'']"

text \<open>A map of 4 by 3 tiles: the second row holds an empty cell, a stack and a stack with
  a flipped identifier; index 5 is blocked; identifier 7 is an object; identifiers 3 and 9
  have cursors.\<close>

definition exampleMap :: game_map where
  "exampleMap =
     \<lparr>version = 1, width = 4, height = 3, tileSize = 16,
      data = [Single 1, Single 2, Single 3, Single 4,
              Single 0, Single 6, Stack [3, 7, 9], Stack [3, 0x80000005],
              Single 9, Single 0x60000002, Stack [], Single 12],
      collisions = [5], entities = Map.empty, plateau = Map.empty, objects = [7],
      cursors = [3 \<mapsto> ''talk'', 9 \<mapsto> ''axe''],
      doors = Map.empty, warps = [], lights = [], chest = [], areas = Map.empty\<rparr>"

section \<open>Properties\<close>

subsection \<open>Round trip of the coordinate codec\<close>

lemma js_rem_nonneg: "0 \<le> a \<Longrightarrow> 0 < b \<Longrightarrow> js_rem a b = a mod b"
  by (cases "a = 0") (simp_all add: js_rem_def)

lemma coordToIndex_nonneg:
  assumes "0 \<le> x" "0 \<le> y" "0 < width m"
  shows "0 \<le> coordToIndex m x y"
  using assms by (simp add: coordToIndex_def)

text \<open>
  C3. On a map of positive width, \<^verbatim>\<open>indexToCoord\<close> undoes \<^verbatim>\<open>coordToIndex\<close> at every
  coordinate pair inside the bounds, and \<^verbatim>\<open>coordToIndex\<close> undoes \<^verbatim>\<open>indexToCoord\<close> at
  every index from \<open>0\<close> up to \<open>width * height\<close>. In the first half the positive width
  follows from \<open>0 \<le> x < width\<close>; in the second it is stated, since the product of two
  negative dimensions is positive too.
\<close>

theorem coord_roundtrip:
  "(0 \<le> x \<and> x < width m \<and> 0 \<le> y \<and> y < height m \<longrightarrow>
      indexToCoord m (coordToIndex m x y) = Some \<lparr>pos_x = x, pos_y = y\<rparr>) \<and>
   (0 < width m \<and> 0 \<le> i \<and> i < width m * height m \<longrightarrow>
      (\<exists>p. indexToCoord m i = Some p \<and> coordToIndex m (pos_x p) (pos_y p) = i))"
proof (intro conjI impI)
  assume a: "0 \<le> x \<and> x < width m \<and> 0 \<le> y \<and> y < height m"
  then have w: "0 < width m" by linarith
  have nn: "0 \<le> coordToIndex m x y"
    using a w by (simp add: coordToIndex_nonneg)
  have r: "js_rem (coordToIndex m x y) (width m) = x"
    using a w nn by (simp add: js_rem_nonneg) (simp add: coordToIndex_def)
  have q: "coordToIndex m x y div width m = y"
    using a w by (simp add: coordToIndex_def)
  show "indexToCoord m (coordToIndex m x y) = Some \<lparr>pos_x = x, pos_y = y\<rparr>"
    using w r q by (simp add: indexToCoord_def)
next
  assume b: "0 < width m \<and> 0 \<le> i \<and> i < width m * height m"
  then have "js_rem i (width m) = i mod width m"
    by (simp add: js_rem_nonneg)
  then have "coordToIndex m (js_rem i (width m)) (i div width m) = i"
    by (simp add: coordToIndex_def)
  then show "\<exists>p. indexToCoord m i = Some p \<and> coordToIndex m (pos_x p) (pos_y p) = i"
    using b by (simp add: indexToCoord_def)
qed

theorem coord_roundtrip_witness:
  "indexToCoord exampleMap (coordToIndex exampleMap 2 1) = Some \<lparr>pos_x = 2, pos_y = 1\<rparr> \<and>
   (\<exists>p. indexToCoord exampleMap 11 = Some p \<and>
        coordToIndex exampleMap (pos_x p) (pos_y p) = 11)"
  using coord_roundtrip [of 2 exampleMap 1 11] by (simp add: exampleMap_def)

subsection \<open>Collision queries\<close>

text \<open>
  C4. \<^verbatim>\<open>isOutOfBounds\<close> holds exactly when a coordinate is negative or not below the
  width or height. \<^verbatim>\<open>isColliding\<close> holds exactly when the point is out of bounds, or the
  cell at index \<open>y * width + x\<close> is empty or absent, or that index is in the collision
  list. So every point out of bounds and every empty cell collides whatever the collision
  list holds, and a non-empty cell inside the bounds whose index is not in the list does
  not collide.
\<close>

theorem collision_queries:
  "(isOutOfBounds m x y \<longleftrightarrow> x < 0 \<or> x \<ge> width m \<or> y < 0 \<or> y \<ge> height m) \<and>
   (isColliding m x y \<longleftrightarrow>
      isOutOfBounds m x y \<or> falsy (data_at m (y * width m + x)) \<or>
      y * width m + x \<in> set (collisions m)) \<and>
   (isOutOfBounds m x y \<longrightarrow> isColliding m x y) \<and>
   (falsy (data_at m (y * width m + x)) \<longrightarrow> isColliding m x y) \<and>
   (\<not> isOutOfBounds m x y \<and> \<not> falsy (data_at m (y * width m + x)) \<and>
      y * width m + x \<notin> set (collisions m) \<longrightarrow> \<not> isColliding m x y)"
  by (simp add: isOutOfBounds_def isColliding_def isCollisionIndex_def coordToIndex_def Let_def)

theorem collision_queries_witness:
  "isOutOfBounds exampleMap 4 0 \<and> isColliding exampleMap 4 0 \<and>
   \<not> isOutOfBounds exampleMap 0 1 \<and> falsy (data_at exampleMap 4) \<and>
   isColliding exampleMap 0 1 \<and> isColliding exampleMap 1 1 \<and>
   \<not> isColliding exampleMap 2 1"
  using collision_queries [of exampleMap 4 0] collision_queries [of exampleMap 0 1]
    collision_queries [of exampleMap 1 1] collision_queries [of exampleMap 2 1]
  by (simp add: exampleMap_def data_at_def)

subsection \<open>Door queries\<close>

text \<open>
  C10. For any door table, \<^verbatim>\<open>isDoor(x, y)\<close> is true exactly when \<^verbatim>\<open>getDoor(x, y)\<close>
  returns an entry: both read the table at the key \<^verbatim>\<open>coordToIndex(x, y)\<close>.
\<close>

theorem door_queries_agree:
  "(isDoor m x y \<longleftrightarrow> getDoor m x y \<noteq> None) \<and>
   getDoor m x y = doors m (coordToIndex m x y)"
  by (simp add: isDoor_def getDoor_def)

subsection \<open>Decoding rotated tiles\<close>

lemma bit_DIAGONAL_FLAG: "bit DIAGONAL_FLAG n \<longleftrightarrow> n = 29"
proof -
  have e: "DIAGONAL_FLAG = 2 ^ 29" by (simp add: DIAGONAL_FLAG_def)
  show ?thesis unfolding e bit_exp_iff by simp
qed

lemma bit_VERTICAL_FLAG: "bit VERTICAL_FLAG n \<longleftrightarrow> n = 30"
proof -
  have e: "VERTICAL_FLAG = 2 ^ 30" by (simp add: VERTICAL_FLAG_def)
  show ?thesis unfolding e bit_exp_iff by simp
qed

lemma bit_HORIZONTAL_FLAG: "bit HORIZONTAL_FLAG n \<longleftrightarrow> n = 31"
proof -
  have e: "HORIZONTAL_FLAG = 2 ^ 31" by (simp add: HORIZONTAL_FLAG_def)
  show ?thesis unfolding e bit_exp_iff by simp
qed

lemmas bit_flags = bit_DIAGONAL_FLAG bit_VERTICAL_FLAG bit_HORIZONTAL_FLAG

lemma bit_toInt32: "bit (toInt32 a) n \<longleftrightarrow> bit a (min 31 n)"
  by (simp add: toInt32_def bit_signed_take_bit_iff)

lemma bit_js_and: "bit (js_and a b) n \<longleftrightarrow> bit a (min 31 n) \<and> bit b (min 31 n)"
  by (simp add: js_and_def bit_and_iff bit_toInt32)

lemma bit_js_or: "bit (js_or a b) n \<longleftrightarrow> bit a (min 31 n) \<or> bit b (min 31 n)"
  by (simp add: js_or_def bit_or_iff bit_toInt32)

lemma bit_js_not: "bit (js_not a) n \<longleftrightarrow> \<not> bit a (min 31 n)"
  by (simp add: js_not_def bit_not_iff bit_toInt32)

lemma js_and_single_bit:
  assumes f: "\<And>n. bit flag n \<longleftrightarrow> n = k" and k: "k \<le> 31"
  shows "js_and a flag \<noteq> 0 \<longleftrightarrow> bit a k"
proof
  assume "js_and a flag \<noteq> 0"
  then obtain n where "bit (js_and a flag) n"
    by (auto simp: bit_eq_iff)
  then have "bit a (min 31 n) \<and> bit flag (min 31 n)"
    by (simp only: bit_js_and)
  then show "bit a k"
    using f by metis
next
  assume "bit a k"
  then have "bit (js_and a flag) k"
    using k by (simp add: bit_js_and f)
  then show "js_and a flag \<noteq> 0"
    by auto
qed

lemma js_and_mask:
  "js_and a (js_not (js_or (js_or DIAGONAL_FLAG VERTICAL_FLAG) HORIZONTAL_FLAG)) = take_bit 29 a"
proof (rule bit_eqI)
  fix n
  show "bit (js_and a (js_not (js_or (js_or DIAGONAL_FLAG VERTICAL_FLAG) HORIZONTAL_FLAG))) n
          \<longleftrightarrow> bit (take_bit 29 a) n"
    by (cases "n < 29") (auto simp: bit_js_and bit_js_not bit_js_or bit_flags bit_take_bit_iff min_def)
qed

lemma getFlippedTile_bits:
  "getFlippedTile a = \<lparr>rt_tileId = take_bit 29 a, rt_h = bit a 31, rt_v = bit a 30, rt_d = bit a 29\<rparr>"
  unfolding getFlippedTile_def Let_def js_and_mask
  by (simp add: js_and_single_bit [OF bit_DIAGONAL_FLAG] js_and_single_bit [OF bit_VERTICAL_FLAG]
       js_and_single_bit [OF bit_HORIZONTAL_FLAG])

lemma bit_flag_or_zero:
  "bit (if b then DIAGONAL_FLAG else 0) n \<longleftrightarrow> b \<and> n = 29"
  "bit (if b then VERTICAL_FLAG else 0) n \<longleftrightarrow> b \<and> n = 30"
  "bit (if b then HORIZONTAL_FLAG else 0) n \<longleftrightarrow> b \<and> n = 31"
  by (simp_all add: bit_flags)

lemma applyFlags_getFlippedTile: "applyFlags (getFlippedTile a) = toInt32 a"
proof (rule bit_eqI)
  fix n :: nat
  have "n < 29 \<or> n = 29 \<or> n = 30 \<or> 31 \<le> n" by linarith
  then show "bit (applyFlags (getFlippedTile a)) n \<longleftrightarrow> bit (toInt32 a) n"
    unfolding getFlippedTile_bits applyFlags_def
    by (auto simp: bit_js_or bit_toInt32 bit_flag_or_zero bit_take_bit_iff min_def)
qed


lemma split_flag_bits:
  fixes b k :: int
  assumes "0 \<le> b" "b < 2 ^ 29"
  shows "take_bit 29 (b + 2 ^ 29 * k) = b" and "drop_bit 29 (b + 2 ^ 29 * k) = k"
  using assms by (simp_all add: take_bit_eq_mod drop_bit_eq_div)

lemma bit_above_29:
  fixes a :: int
  shows "bit a (29 + j) \<longleftrightarrow> bit (drop_bit 29 a) j"
  by (simp add: bit_drop_bit_eq)

lemma no_flags_small:
  assumes "0 \<le> base" "base < 2 ^ 32"
    and "js_and base DIAGONAL_FLAG = 0" "js_and base VERTICAL_FLAG = 0"
        "js_and base HORIZONTAL_FLAG = 0"
  shows "base < 2 ^ 29"
proof -
  have b: "\<not> bit base 29" "\<not> bit base 30" "\<not> bit base 31"
    using assms(3-5) js_and_single_bit [OF bit_DIAGONAL_FLAG, of base]
      js_and_single_bit [OF bit_VERTICAL_FLAG, of base]
      js_and_single_bit [OF bit_HORIZONTAL_FLAG, of base]
    by simp_all
  have t: "take_bit 32 base = base"
    using assms(1,2) by (simp add: take_bit_int_eq_self)
  have "take_bit 29 base = base"
  proof (rule bit_eqI)
    fix n :: nat
    have "n < 29 \<or> n = 29 \<or> n = 30 \<or> n = 31 \<or> 32 \<le> n" by linarith
    moreover have "32 \<le> n \<Longrightarrow> \<not> bit base n"
      using t by (metis bit_take_bit_iff not_le)
    ultimately show "bit (take_bit 29 base) n \<longleftrightarrow> bit base n"
      using b by (auto simp: bit_take_bit_iff)
  qed
  then show ?thesis
    by (metis take_bit_int_less_exp)
qed

text \<open>
  C2. Let \<open>base\<close> be a 32-bit identifier on which the decoder's three flag tests fail,
  and let \<open>raw\<close> be \<open>base\<close> combined with any subset of the horizontal, vertical and
  diagonal flags. Then \<^verbatim>\<open>getFlippedTile\<close> returns \<open>base\<close> with exactly those flags, and
  putting the returned flags back onto the returned base with \<^verbatim>\<open>|\<close> gives the 32 bits
  of \<open>raw\<close>: the result is the signed 32-bit reading of \<open>raw\<close> (a negative number when
  the horizontal flag is set), and its low 32 bits are \<open>raw\<close> itself.
\<close>

theorem flip_decode_encode:
  assumes "0 \<le> base" "base < 2 ^ 32"
    and "js_and base DIAGONAL_FLAG = 0" "js_and base VERTICAL_FLAG = 0"
        "js_and base HORIZONTAL_FLAG = 0"
    and raw: "raw = base + (if fh then HORIZONTAL_FLAG else 0)
                         + (if fv then VERTICAL_FLAG else 0)
                         + (if fd then DIAGONAL_FLAG else 0)"
  shows "getFlippedTile raw = \<lparr>rt_tileId = base, rt_h = fh, rt_v = fv, rt_d = fd\<rparr> \<and>
         applyFlags (getFlippedTile raw) = toInt32 raw \<and>
         take_bit 32 (applyFlags (getFlippedTile raw)) = raw"
proof -
  define k :: int where "k = of_bool fd + 2 * of_bool fv + 4 * of_bool fh"
  have small: "base < 2 ^ 29"
    using assms(1-5) by (rule no_flags_small)
  have r: "raw = base + 2 ^ 29 * k"
    by (simp add: raw k_def DIAGONAL_FLAG_def VERTICAL_FLAG_def HORIZONTAL_FLAG_def)
  have tb: "take_bit 29 raw = base" and db: "drop_bit 29 raw = k"
    unfolding r using assms(1) small by (rule split_flag_bits)+
  have "bit raw (29 + 0) = bit k 0" "bit raw (29 + 1) = bit k 1" "bit raw (29 + 2) = bit k 2"
    unfolding bit_above_29 db by simp_all
  then have bits: "bit raw 29 = fd" "bit raw 30 = fv" "bit raw 31 = fh"
    by (simp_all add: k_def bit_iff_odd)
  have dec: "getFlippedTile raw = \<lparr>rt_tileId = base, rt_h = fh, rt_v = fv, rt_d = fd\<rparr>"
    by (simp add: getFlippedTile_bits tb bits)
  have "0 \<le> k" "k \<le> 7"
    by (simp_all add: k_def)
  then have range: "0 \<le> raw" "raw < 2 ^ 32"
    using assms(1) small by (simp_all add: r)
  have "take_bit 32 (toInt32 raw) = take_bit 32 raw"
    by (simp add: toInt32_def take_bit_signed_take_bit)
  also have "\<dots> = raw"
    using range by (simp add: take_bit_int_eq_self)
  finally have tk: "take_bit 32 (applyFlags (getFlippedTile raw)) = raw"
    by (simp only: applyFlags_getFlippedTile)
  have enc: "applyFlags (getFlippedTile raw) = toInt32 raw"
    by (rule applyFlags_getFlippedTile)
  from dec enc tk show ?thesis
    by (intro conjI)
qed


theorem flip_decode_encode_witness:
  "getFlippedTile 0xA0000005 = \<lparr>rt_tileId = 5, rt_h = True, rt_v = False, rt_d = True\<rparr> \<and>
   applyFlags (getFlippedTile 0xA0000005) = toInt32 0xA0000005 \<and>
   take_bit 32 (applyFlags (getFlippedTile 0xA0000005)) = (0xA0000005 :: int)"
proof -
  have h: "js_and 5 DIAGONAL_FLAG = 0" "js_and 5 VERTICAL_FLAG = 0"
      "js_and 5 HORIZONTAL_FLAG = 0"
    by (simp_all add: js_and_def toInt32_def DIAGONAL_FLAG_def VERTICAL_FLAG_def
          HORIZONTAL_FLAG_def)
  have r: "(0xA0000005 :: int) = 5 + (if True then HORIZONTAL_FLAG else 0)
             + (if False then VERTICAL_FLAG else 0) + (if True then DIAGONAL_FLAG else 0)"
    by (simp add: DIAGONAL_FLAG_def HORIZONTAL_FLAG_def)
  show ?thesis
    by (rule flip_decode_encode [OF _ _ h r]) simp_all
qed

subsection \<open>Objects and cursors of a cell\<close>

lemma fold_snoc_trace: "fold (\<lambda>tileId seen. seen @ [tileId]) ns acc = acc @ ns"
  by (induction ns arbitrary: acc) simp_all

lemma visited_simps: "visited (Single n) = [n]" "visited (Stack ns) = ns"
  by (simp_all add: visited_def fold_snoc_trace)

lemma forEachTile_visited: "forEachTile cell callback s = fold callback (visited cell) s"
  by (cases cell) (simp_all add: visited_simps)

lemma fold_isObject:
  "fold (\<lambda>tileId isObj. if tileId \<in> S then True else isObj) ns b \<longleftrightarrow> b \<or> (\<exists>n\<in>set ns. n \<in> S)"
  by (induction ns arbitrary: b) auto

text \<open>
  C7. \<^verbatim>\<open>isObject\<close> is true exactly when one of the identifiers that \<^verbatim>\<open>forEachTile\<close>
  visits is in the list of object identifiers; \<^verbatim>\<open>forEachTile\<close> visits the scalar once, or
  every element of the list once and in order. With the object list \<open>[7]\<close> the cell
  \<open>[3, 7, 9]\<close> is an object and the cell \<open>[3, 9]\<close> is not.
\<close>

theorem isObject_iff:
  "(isObject m cell \<longleftrightarrow> (\<exists>n\<in>set (visited cell). n \<in> set (objects m))) \<and>
   visited (Single n) = [n] \<and> visited (Stack ns) = ns"
  by (simp add: isObject_def forEachTile_visited fold_isObject visited_simps)

theorem isObject_iff_witness:
  "isObject exampleMap (Stack [3, 7, 9]) \<and> \<not> isObject exampleMap (Stack [3, 9])"
  using isObject_iff [of exampleMap "Stack [3, 7, 9]"] isObject_iff [of exampleMap "Stack [3, 9]"]
  by (simp add: exampleMap_def)

lemma fold_getCursor_none:
  "\<forall>n\<in>set ns. cur n = None \<Longrightarrow>
   fold (\<lambda>tileId cursor. case cur tileId of Some c \<Rightarrow> c | None \<Rightarrow> cursor) ns c0 = c0"
  by (induction ns arbitrary: c0) simp_all

text \<open>
  C8. \<^verbatim>\<open>forEachTile\<close> visits the scalar of a scalar cell, and the elements of a list
  cell in order. When no visited identifier has a cursor, \<^verbatim>\<open>getCursor\<close> returns the
  empty string. Otherwise it returns the cursor of the last identifier, in the order of the
  iteration, that has one. So a scalar cell gives the cursor of its identifier, or the empty
  string when it has none, and a list cell gives the cursor of the last element that has
  one, or the empty string when no element has one.
\<close>

theorem getCursor_last_match:
  "visited (Single t) = [t] \<and> visited (Stack ts) = ts \<and>
   ((\<forall>n\<in>set (visited cell). cursors m n = None) \<longrightarrow> getCursor m cell = []) \<and>
   (visited cell = before @ n # after \<and> cursors m n = Some c \<and>
      (\<forall>k\<in>set after. cursors m k = None) \<longrightarrow> getCursor m cell = c) \<and>
   getCursor m (Single t) = (case cursors m t of None \<Rightarrow> [] | Some name \<Rightarrow> name) \<and>
   ((\<forall>n\<in>set ts. cursors m n = None) \<longrightarrow> getCursor m (Stack ts) = []) \<and>
   (cursors m n = Some c \<and> (\<forall>k\<in>set after. cursors m k = None) \<longrightarrow>
      getCursor m (Stack (before @ n # after)) = c)"
proof (intro conjI impI)
  show "visited (Single t) = [t]" and "visited (Stack ts) = ts"
    by (simp_all add: visited_simps)
next
  assume "\<forall>n\<in>set (visited cell). cursors m n = None"
  then show "getCursor m cell = []"
    by (simp add: getCursor_def forEachTile_visited fold_getCursor_none)
next
  assume "visited cell = before @ n # after \<and> cursors m n = Some c \<and>
      (\<forall>k\<in>set after. cursors m k = None)"
  then show "getCursor m cell = c"
    by (simp add: getCursor_def forEachTile_visited fold_getCursor_none)
next
  show "getCursor m (Single t) = (case cursors m t of None \<Rightarrow> [] | Some name \<Rightarrow> name)"
    by (simp add: getCursor_def split: option.splits)
next
  assume "\<forall>n\<in>set ts. cursors m n = None"
  then show "getCursor m (Stack ts) = []"
    by (simp add: getCursor_def fold_getCursor_none)
next
  assume "cursors m n = Some c \<and> (\<forall>k\<in>set after. cursors m k = None)"
  then show "getCursor m (Stack (before @ n # after)) = c"
    by (simp add: getCursor_def fold_getCursor_none)
qed

theorem getCursor_last_match_witness:
  "getCursor exampleMap (Single 7) = [] \<and> getCursor exampleMap (Single 9) = ''axe'' \<and>
   getCursor exampleMap (Stack [3, 9, 7]) = ''axe'' \<and>
   getCursor exampleMap (Stack [7, 12]) = []"
proof -
  note th1 = getCursor_last_match [where m = exampleMap and t = 7]
  note th2 = getCursor_last_match [where m = exampleMap and t = 9]
  note th3 = getCursor_last_match [where m = exampleMap and cell = "Stack [3, 9, 7]"
      and ts = "[3, 9, 7]" and before = "[3]" and n = 9 and after = "[7]" and c = "''axe''"]
  note th4 = getCursor_last_match [where m = exampleMap and ts = "[7, 12]"]
  have c7: "cursors exampleMap 7 = None" and c9: "cursors exampleMap 9 = Some ''axe''"
    and c12: "cursors exampleMap 12 = None"
    by (simp_all add: exampleMap_def)
  have r1: "getCursor exampleMap (Single 7) = []"
    using th1 by (simp add: c7)
  have r2: "getCursor exampleMap (Single 9) = ''axe''"
    using th2 by (simp add: c9)
  have v3: "visited (Stack [3, 9, 7]) = [3] @ 9 # [7]"
    using th3 by simp
  have h3: "visited (Stack [3, 9, 7]) = [3] @ 9 # [7] \<and> cursors exampleMap 9 = Some ''axe'' \<and>
      (\<forall>k\<in>set [7]. cursors exampleMap k = None)"
    using v3 by (simp add: c7 c9)
  have r3: "getCursor exampleMap (Stack [3, 9, 7]) = ''axe''"
    using th3 h3 by blast
  have h4: "\<forall>n\<in>set [7, 12]. cursors exampleMap n = None"
    by (simp add: c7 c12)
  have r4: "getCursor exampleMap (Stack [7, 12]) = []"
    using th4 h4 by blast
  from r1 r2 r3 r4 show ?thesis
    by (intro conjI)
qed

subsection \<open>Tile data of a cell\<close>

lemma fold_push:
  "fold (\<lambda>tileId parsedData. push parsedData (f tileId)) ns (Tiles acc) = Tiles (acc @ map f ns)"
  by (induction ns arbitrary: acc) simp_all

text \<open>
  C6. \<^verbatim>\<open>getTileData\<close> returns the empty list when the cell at the index is absent or
  \<open>0\<close>. For a scalar cell it returns the scalar, for a list the list of its elements in
  order, where each identifier greater than the diagonal flag is replaced by its rotated
  tile and every other identifier is kept as the number it is. A 32-bit identifier with none
  of the three flags set is not greater than the diagonal flag, so it is kept.
\<close>

theorem getTileData_cases:
  "(falsy (data_at m index) \<longrightarrow> getTileData m index = Tiles []) \<and>
   (data_at m index = Some (Single n) \<and> n \<noteq> 0 \<longrightarrow>
      getTileData m index =
        (if DIAGONAL_FLAG < n then Rotated (getFlippedTile n) else TileId n)) \<and>
   (data_at m index = Some (Stack ns) \<longrightarrow>
      getTileData m index =
        Tiles (map (\<lambda>k. if DIAGONAL_FLAG < k then Rotated (getFlippedTile k) else TileId k) ns)) \<and>
   (0 \<le> n \<and> n < 2 ^ 32 \<and> js_and n DIAGONAL_FLAG = 0 \<and> js_and n VERTICAL_FLAG = 0 \<and>
      js_and n HORIZONTAL_FLAG = 0 \<longrightarrow> \<not> DIAGONAL_FLAG < n)"
proof (intro conjI impI)
  assume "falsy (data_at m index)"
  then show "getTileData m index = Tiles []"
    by (cases "data_at m index") (simp_all add: getTileData_def)
next
  assume "data_at m index = Some (Single n) \<and> n \<noteq> 0"
  then show "getTileData m index =
      (if DIAGONAL_FLAG < n then Rotated (getFlippedTile n) else TileId n)"
    by (simp add: getTileData_def isFlipped_def)
next
  assume "data_at m index = Some (Stack ns)"
  then show "getTileData m index =
      Tiles (map (\<lambda>k. if DIAGONAL_FLAG < k then Rotated (getFlippedTile k) else TileId k) ns)"
    by (simp add: getTileData_def isFlipped_def Let_def fold_push)
next
  assume "0 \<le> n \<and> n < 2 ^ 32 \<and> js_and n DIAGONAL_FLAG = 0 \<and> js_and n VERTICAL_FLAG = 0 \<and>
      js_and n HORIZONTAL_FLAG = 0"
  then have "n < 2 ^ 29"
    using no_flags_small [of n] by blast
  then show "\<not> DIAGONAL_FLAG < n"
    by (simp add: DIAGONAL_FLAG_def)
qed

theorem getTileData_cases_witness:
  "getTileData exampleMap 4 = Tiles [] \<and>
   getTileData exampleMap 12 = Tiles [] \<and>
   getTileData exampleMap 9 =
     Rotated \<lparr>rt_tileId = 2, rt_h = False, rt_v = True, rt_d = True\<rparr> \<and>
   getTileData exampleMap 3 = TileId 4 \<and>
   getTileData exampleMap 7 =
     Tiles [TileId 3, Rotated \<lparr>rt_tileId = 5, rt_h = True, rt_v = False, rt_d = False\<rparr>] \<and>
   \<not> DIAGONAL_FLAG < 4"
proof -
  have cells: "data_at exampleMap 4 = Some (Single 0)" "data_at exampleMap 12 = None"
    "data_at exampleMap 9 = Some (Single 0x60000002)" "data_at exampleMap 3 = Some (Single 4)"
    "data_at exampleMap 7 = Some (Stack [3, 0x80000005])"
    by (simp_all add: data_at_def exampleMap_def)
  have f: "getFlippedTile 0x60000002 = \<lparr>rt_tileId = 2, rt_h = False, rt_v = True, rt_d = True\<rparr>"
    "getFlippedTile 0x80000005 = \<lparr>rt_tileId = 5, rt_h = True, rt_v = False, rt_d = False\<rparr>"
    by (simp_all add: getFlippedTile_def js_and_def js_or_def js_not_def toInt32_def
          DIAGONAL_FLAG_def VERTICAL_FLAG_def HORIZONTAL_FLAG_def)
  have n: "js_and 4 DIAGONAL_FLAG = 0 \<and> js_and 4 VERTICAL_FLAG = 0 \<and> js_and 4 HORIZONTAL_FLAG = 0"
    by (simp add: js_and_def toInt32_def DIAGONAL_FLAG_def VERTICAL_FLAG_def HORIZONTAL_FLAG_def)
  show ?thesis
    using getTileData_cases [of exampleMap 4] getTileData_cases [of exampleMap 12]
      getTileData_cases [of exampleMap 9 "0x60000002"]
      getTileData_cases [of exampleMap 3 4]
      getTileData_cases [of exampleMap 7 0 "[3, 0x80000005]"]
    by (simp add: cells f n DIAGONAL_FLAG_def)
qed

subsection \<open>The area registry and the chest areas\<close>

lemma fold_register_fields:
  "width (fold (\<lambda>(key, area) m'. if key \<notin> set idx then m'
       else m'\<lparr>areas := (areas m')(key \<mapsto> Areas key area)\<rparr>) groups m) = width m"
  by (induction groups arbitrary: m) (simp_all split: prod.splits)

lemma fold_register_areas:
  "distinct (map fst groups) \<Longrightarrow>
   areas (fold (\<lambda>(key, area) m'. if key \<notin> set idx then m'
       else m'\<lparr>areas := (areas m')(key \<mapsto> Areas key area)\<rparr>) groups m) k =
   (if k \<in> set idx
    then (case map_of groups k of None \<Rightarrow> areas m k | Some g \<Rightarrow> Some (Areas k g))
    else areas m k)"
proof (induction groups arbitrary: m)
  case Nil
  then show ?case by simp
next
  case (Cons a groups)
  obtain key area where a: "a = (key, area)" by (cases a)
  from Cons.prems have d: "distinct (map fst groups)" and nk: "key \<notin> fst ` set groups"
    by (simp_all add: a)
  from nk have none: "map_of groups key = None"
    by (simp add: map_of_eq_None_iff)
  show ?case
    using none by (auto simp: a Cons.IH [OF d] split: option.splits)
qed

lemma loadAreas_width: "width (loadAreas idx pm m) = width m"
  by (simp add: loadAreas_def fold_register_fields)

lemma loadAreas_areas:
  "distinct (map fst (pm_areas pm)) \<Longrightarrow>
   areas (loadAreas idx pm m) k =
   (if k \<in> set idx
    then (case map_of (pm_areas pm) k of None \<Rightarrow> areas m k | Some g \<Rightarrow> Some (Areas k g))
    else areas m k)"
  by (simp add: loadAreas_def fold_register_areas)

lemma new_Map_areas: "areas (new_Map idx pm) = areas (loadAreas idx pm (init_Map pm))"
  by (simp add: new_Map_def construct_def loadDoors_def Let_def)

lemma new_Map_width: "width (new_Map idx pm) = pm_width pm"
  by (simp add: new_Map_def construct_def loadDoors_def Let_def loadAreas_width init_Map_def)

text \<open>
  C9, as the code has it. \<^verbatim>\<open>loadAreas\<close> registers a group under the key it has in the
  dataset, and only when \<^verbatim>\<open>AreasIndex\<close> has a class for that key; \<^verbatim>\<open>getChestAreas\<close>
  reads the key \<^verbatim>\<open>chests\<close>. So after construction from a dataset (a JSON object: its
  keys are distinct) \<^verbatim>\<open>getChestAreas\<close> returns the group built from the dataset's group
  \<^verbatim>\<open>chests\<close>, when the dataset has one and \<^verbatim>\<open>AreasIndex\<close> has a class for that key,
  and nothing otherwise; in particular it returns nothing when the dataset has no group
  \<^verbatim>\<open>chests\<close>, whatever its group \<^verbatim>\<open>chest\<close> holds. The dataset's group \<^verbatim>\<open>chest\<close> is
  registered under the key \<^verbatim>\<open>chest\<close> when \<^verbatim>\<open>AreasIndex\<close> has a class for \<^verbatim>\<open>chest\<close>, and
  not registered at all otherwise.
\<close>

theorem getChestAreas_key:
  assumes "distinct (map fst (pm_areas pm))"
  shows "getChestAreas (new_Map areasIndex pm) =
           (if ''chests'' \<in> set areasIndex
            then map_option (Areas ''chests'') (map_of (pm_areas pm) ''chests'') else None) \<and>
         areas (new_Map areasIndex pm) ''chest'' =
           (if ''chest'' \<in> set areasIndex
            then map_option (Areas ''chest'') (map_of (pm_areas pm) ''chest'') else None) \<and>
         (map_of (pm_areas pm) ''chests'' = None \<longrightarrow>
            getChestAreas (new_Map areasIndex pm) = None) \<and>
         (''chest'' \<notin> set areasIndex \<longrightarrow> areas (new_Map areasIndex pm) ''chest'' = None)"
  using assms
  by (simp add: getChestAreas_def new_Map_areas loadAreas_areas init_Map_def split: option.splits)

theorem getChestAreas_key_witness:
  "getChestAreas (new_Map exampleAreasIndex exampleDataset) = None \<and>
   areas (new_Map exampleAreasIndex exampleDataset) ''chest'' =
     Some (Areas ''chest'' [rawArea 30 3 4]) \<and>
   getChestAreas (new_Map [''chests'', ''dynamic''] exampleDataset) = None \<and>
   areas (new_Map [''chests'', ''dynamic''] exampleDataset) ''chest'' = None"
proof -
  have d: "distinct (map fst (pm_areas exampleDataset))"
    by (simp add: exampleDataset_def datasetWithDoors_def)
  show ?thesis
    using getChestAreas_key [OF d, of exampleAreasIndex]
      getChestAreas_key [OF d, of "[''chests'', ''dynamic'']"]
    by (simp add: exampleDataset_def datasetWithDoors_def exampleAreasIndex_def)
qed

text \<open>
  The claim C9 as stated fails: the example dataset has a chest group under the key
  \<^verbatim>\<open>chest\<close> of the schema, \<^verbatim>\<open>AreasIndex\<close> has a class for that key, and
  \<^verbatim>\<open>getChestAreas\<close> returns nothing.
\<close>

theorem getChestAreas_chest_counterexample:
  "map_of (pm_areas exampleDataset) ''chest'' = Some [rawArea 30 3 4] \<and>
   ''chest'' \<in> set exampleAreasIndex \<and>
   getChestAreas (new_Map exampleAreasIndex exampleDataset) = None"
  by (simp add: exampleDataset_def datasetWithDoors_def exampleAreasIndex_def getChestAreas_def
      new_Map_def construct_def loadDoors_def loadAreas_def init_Map_def Let_def)

subsection \<open>Linking the doors\<close>



lemma find_id_flip:
  "find (\<lambda>cloneDoor. k = pa_id cloneDoor) c = find (\<lambda>cloneDoor. pa_id cloneDoor = k) c"
  by (rule find_cong) auto

lemma find_id_None: "find (\<lambda>cloneDoor. pa_id cloneDoor = k) c = None \<longleftrightarrow> k \<notin> pa_id ` set c"
  by (auto simp: find_None_iff)

lemma linkDoor_unresolvable:
  assumes "\<not> resolvable c door"
  shows "linkDoor m c door st = st"
proof (cases "pa_destination door")
  case None
  then show ?thesis by (simp add: linkDoor_def falsy_number_def)
next
  case (Some k)
  show ?thesis
  proof (cases "k = 0")
    case True
    then show ?thesis by (simp add: linkDoor_def falsy_number_def Some)
  next
    case False
    with assms Some have "k \<notin> pa_id ` set c"
      by (simp add: resolvable_def)
    then have "find (\<lambda>cloneDoor. pa_id cloneDoor = k) c = None"
      by (simp add: find_id_None)
    then show ?thesis
      by (simp add: linkDoor_def Let_def Some find_id_flip)
  qed
qed

lemma linkDoor_resolved:
  assumes "pa_destination door = Some k" "k \<noteq> 0" "find (\<lambda>cloneDoor. pa_id cloneDoor = k) c = Some dest"
  shows "linkDoor m c door st =
           st\<lparr>ls_doors := (ls_doors st)(tileIndex m door \<mapsto>
                \<lparr>pd_x = pa_x dest, pd_y = pa_y dest,
                 pd_orientation = or_string (pa_orientation dest) ''d'',
                 pd_quest = or_string (pa_quest door) [],
                 pd_achievement = or_string (pa_achievement door) [],
                 pd_stage = or_number (pa_stage door) 0\<rparr>)\<rparr>"
  using assms by (simp add: linkDoor_def falsy_number_def Let_def find_id_flip)

lemma resolvable_find:
  "resolvable c door \<longleftrightarrow>
     (\<exists>k dest. pa_destination door = Some k \<and> k \<noteq> 0 \<and>
               find (\<lambda>cloneDoor. pa_id cloneDoor = k) c = Some dest)"
proof (cases "pa_destination door")
  case None
  then show ?thesis by (simp add: resolvable_def)
next
  case (Some k)
  have "k \<in> pa_id ` set c \<longleftrightarrow> (\<exists>dest. find (\<lambda>cloneDoor. pa_id cloneDoor = k) c = Some dest)"
    using find_None_iff [of "\<lambda>cloneDoor. pa_id cloneDoor = k" c] by auto
  then show ?thesis
    by (simp add: resolvable_def Some)
qed

lemma linkDoor_dom:
  "ls_doors (linkDoor m c door st) i \<noteq> None \<longleftrightarrow>
     ls_doors st i \<noteq> None \<or> (resolvable c door \<and> tileIndex m door = i)"
proof (cases "resolvable c door")
  case False
  then show ?thesis by (simp add: linkDoor_unresolvable)
next
  case True
  then obtain k dest where "pa_destination door = Some k" "k \<noteq> 0"
      "find (\<lambda>cloneDoor. pa_id cloneDoor = k) c = Some dest"
    by (auto simp: resolvable_find)
  then show ?thesis
    using True by (simp add: linkDoor_resolved)
qed

lemma fold_linkDoor_dom:
  "ls_doors (fold (linkDoor m c) ds st) i \<noteq> None \<longleftrightarrow>
     ls_doors st i \<noteq> None \<or> (\<exists>door\<in>set ds. resolvable c door \<and> tileIndex m door = i)"
proof (induction ds arbitrary: st)
  case Nil
  then show ?case by simp
next
  case (Cons d ds)
  show ?case
    unfolding fold_simps Cons.IH linkDoor_dom by auto
qed

lemma linkDoor_other_index:
  "resolvable c door \<longrightarrow> tileIndex m door \<noteq> i \<Longrightarrow>
   ls_doors (linkDoor m c door st) i = ls_doors st i"
proof (cases "resolvable c door")
  case False
  then show ?thesis by (simp add: linkDoor_unresolvable)
next
  case True
  assume "resolvable c door \<longrightarrow> tileIndex m door \<noteq> i"
  with True have ne: "tileIndex m door \<noteq> i" by simp
  from True obtain k dest where "pa_destination door = Some k" "k \<noteq> 0"
      "find (\<lambda>cloneDoor. pa_id cloneDoor = k) c = Some dest"
    by (auto simp: resolvable_find)
  then show ?thesis
    using ne by (simp add: linkDoor_resolved)
qed

lemma fold_linkDoor_other_index:
  "\<forall>later\<in>set ds. resolvable c later \<longrightarrow> tileIndex m later \<noteq> i \<Longrightarrow>
   ls_doors (fold (linkDoor m c) ds st) i = ls_doors st i"
  by (induction ds arbitrary: st) (simp_all add: linkDoor_other_index)

lemma fold_linkDoor_last:
  assumes "ds = before @ door # after"
    and "pa_destination door = Some k" "k \<noteq> 0"
    and "find (\<lambda>cloneDoor. pa_id cloneDoor = k) c = Some dest"
    and "\<forall>later\<in>set after. resolvable c later \<longrightarrow> tileIndex m later \<noteq> tileIndex m door"
  shows "ls_doors (fold (linkDoor m c) ds st) (tileIndex m door) =
           Some \<lparr>pd_x = pa_x dest, pd_y = pa_y dest,
                 pd_orientation = or_string (pa_orientation dest) ''d'',
                 pd_quest = or_string (pa_quest door) [],
                 pd_achievement = or_string (pa_achievement door) [],
                 pd_stage = or_number (pa_stage door) 0\<rparr>"
  using assms(5)
  by (simp add: assms(1) fold_linkDoor_other_index linkDoor_resolved [OF assms(2-4)])


lemma linkDoor_width: "width m = width m' \<Longrightarrow> linkDoor m = linkDoor m'"
  by (intro ext) (simp add: linkDoor_def coordToIndex_def)

lemma linkDoors_width: "width m = width m' \<Longrightarrow> linkDoors m ds = linkDoors m' ds"
  by (simp add: linkDoors_def linkDoor_width [of m m'])


lemma new_Map_doors:
  "doors (new_Map idx pm) = ls_doors (linkDoors (new_Map idx pm) (areas_of pm ''doors''))"
proof -
  have "width (new_Map idx pm) = width (loadAreas idx pm (init_Map pm))"
    by (simp add: new_Map_width loadAreas_width init_Map_def)
  then have "linkDoors (new_Map idx pm) (areas_of pm ''doors'') =
      linkDoors (loadAreas idx pm (init_Map pm)) (areas_of pm ''doors'')"
    by (rule linkDoors_width)
  then show ?thesis
    by (simp add: new_Map_def construct_def loadDoors_def Let_def)
qed

lemma linkDoors_exampleDoors:
  "ls_doors (linkDoors m exampleDoors) =
     [tileIndex m ((rawArea 1 5 5)\<lparr>pa_destination := Some 2\<rparr>) \<mapsto>
        \<lparr>pd_x = 10, pd_y = 10, pd_orientation = ''u'', pd_quest = [], pd_achievement = [],
         pd_stage = 0\<rparr>]"
  by (simp add: linkDoors_def cloneDeep_def exampleDoors_def linkDoor_def falsy_number_def
        rawArea_def or_string_def or_number_def)

text \<open>
  C1, as the code has it. The door table has an entry under a tile index exactly when a
  resolvable raw door has that tile index. When a door is resolvable and no later
  resolvable door of the list has its tile index, the entry under its tile index holds the
  coordinates and orientation (\<open>d\<close> when unset or empty) of the first door of the list whose
  identifier is its destination, and the door's own quest, achievement and stage (empty,
  empty and \<open>0\<close> when unset). The constructor stores this table in the map. For the raw
  doors of the spec's example, on a map of non-negative width, \<^verbatim>\<open>getDoor(5, 5)\<close> is the
  entry \<open>(10, 10, u)\<close> with empty quest and achievement and stage \<open>0\<close>, and
  \<^verbatim>\<open>isDoor(10, 10)\<close> is false.
\<close>

theorem loadDoors_table:
  "(ls_doors (linkDoors m ds) i \<noteq> None \<longleftrightarrow>
      (\<exists>door\<in>set ds. resolvable ds door \<and> tileIndex m door = i)) \<and>
   (ds = before @ door # after \<and> pa_destination door = Some k \<and> k \<noteq> 0 \<and>
      find (\<lambda>cloneDoor. pa_id cloneDoor = k) ds = Some dest \<and>
      (\<forall>later\<in>set after. resolvable ds later \<longrightarrow> tileIndex m later \<noteq> tileIndex m door) \<longrightarrow>
    ls_doors (linkDoors m ds) (tileIndex m door) =
      Some \<lparr>pd_x = pa_x dest, pd_y = pa_y dest,
            pd_orientation = or_string (pa_orientation dest) ''d'',
            pd_quest = or_string (pa_quest door) [],
            pd_achievement = or_string (pa_achievement door) [],
            pd_stage = or_number (pa_stage door) 0\<rparr>) \<and>
   doors (new_Map areasIndex pm) =
     ls_doors (linkDoors (new_Map areasIndex pm) (areas_of pm ''doors'')) \<and>
   (areas_of pm ''doors'' = exampleDoors \<and> 0 \<le> pm_width pm \<longrightarrow>
      getDoor (new_Map areasIndex pm) 5 5 =
        Some \<lparr>pd_x = 10, pd_y = 10, pd_orientation = ''u'', pd_quest = [],
              pd_achievement = [], pd_stage = 0\<rparr> \<and>
      \<not> isDoor (new_Map areasIndex pm) 10 10)"
proof (intro conjI impI)
  show "ls_doors (linkDoors m ds) i \<noteq> None \<longleftrightarrow>
      (\<exists>door\<in>set ds. resolvable ds door \<and> tileIndex m door = i)"
    by (simp only: linkDoors_def cloneDeep_def Let_def fold_linkDoor_dom) simp
next
  assume a: "ds = before @ door # after \<and> pa_destination door = Some k \<and> k \<noteq> 0 \<and>
      find (\<lambda>cloneDoor. pa_id cloneDoor = k) ds = Some dest \<and>
      (\<forall>later\<in>set after. resolvable ds later \<longrightarrow> tileIndex m later \<noteq> tileIndex m door)"
  then have a1: "ds = before @ door # after"
    and a2: "pa_destination door = Some k" and a3: "k \<noteq> 0"
    and a4: "find (\<lambda>cloneDoor. pa_id cloneDoor = k) ds = Some dest"
    and a5: "\<forall>later\<in>set after. resolvable ds later \<longrightarrow> tileIndex m later \<noteq> tileIndex m door"
    by blast+
  have "ls_doors (fold (linkDoor m ds) ds \<lparr>ls_doors = Map.empty, ls_log = []\<rparr>)
        (tileIndex m door) =
      Some \<lparr>pd_x = pa_x dest, pd_y = pa_y dest,
            pd_orientation = or_string (pa_orientation dest) ''d'',
            pd_quest = or_string (pa_quest door) [],
            pd_achievement = or_string (pa_achievement door) [],
            pd_stage = or_number (pa_stage door) 0\<rparr>"
    by (rule fold_linkDoor_last [OF a1 a2 a3 a4 a5])
  then show "ls_doors (linkDoors m ds) (tileIndex m door) =
      Some \<lparr>pd_x = pa_x dest, pd_y = pa_y dest,
            pd_orientation = or_string (pa_orientation dest) ''d'',
            pd_quest = or_string (pa_quest door) [],
            pd_achievement = or_string (pa_achievement door) [],
            pd_stage = or_number (pa_stage door) 0\<rparr>"
    by (simp only: linkDoors_def cloneDeep_def Let_def)
next
  show "doors (new_Map areasIndex pm) =
     ls_doors (linkDoors (new_Map areasIndex pm) (areas_of pm ''doors''))"
    by (rule new_Map_doors)
next
  assume e: "areas_of pm ''doors'' = exampleDoors \<and> 0 \<le> pm_width pm"
  then have t: "doors (new_Map areasIndex pm) =
      [5 * pm_width pm + 5 \<mapsto>
        \<lparr>pd_x = 10, pd_y = 10, pd_orientation = ''u'', pd_quest = [], pd_achievement = [],
         pd_stage = 0\<rparr>]"
    by (simp add: new_Map_doors linkDoors_exampleDoors coordToIndex_def new_Map_width
          rawArea_def)
  show "getDoor (new_Map areasIndex pm) 5 5 =
        Some \<lparr>pd_x = 10, pd_y = 10, pd_orientation = ''u'', pd_quest = [],
              pd_achievement = [], pd_stage = 0\<rparr>"
    by (simp add: getDoor_def t coordToIndex_def new_Map_width)
  show "\<not> isDoor (new_Map areasIndex pm) 10 10"
    using e by (simp add: isDoor_def t coordToIndex_def new_Map_width)
qed


lemma example_widths:
  "width (new_Map idx (datasetWithDoors ds)) = 20"
  "areas_of (datasetWithDoors ds) ''doors'' = ds"
  by (simp_all add: new_Map_width datasetWithDoors_def areas_of_def)

theorem loadDoors_table_witness:
  "getDoor (new_Map exampleAreasIndex exampleDataset) 5 5 =
     Some \<lparr>pd_x = 10, pd_y = 10, pd_orientation = ''u'', pd_quest = [],
           pd_achievement = [], pd_stage = 0\<rparr> \<and>
   \<not> isDoor (new_Map exampleAreasIndex exampleDataset) 10 10 \<and>
   ls_doors (linkDoors (new_Map exampleAreasIndex (datasetWithDoors overlappingDoors))
               overlappingDoors) 105 =
     Some \<lparr>pd_x = 1, pd_y = 1, pd_orientation = ''d'', pd_quest = [],
           pd_achievement = [], pd_stage = 0\<rparr> \<and>
   ls_doors (linkDoors (new_Map exampleAreasIndex (datasetWithDoors overlappingDoors))
               overlappingDoors) 210 = None"
proof -
  let ?m = "new_Map exampleAreasIndex (datasetWithDoors overlappingDoors)"
  let ?d3 = "(rawArea 3 5 5)\<lparr>pa_destination := Some 4\<rparr>"
  have ex: "areas_of exampleDataset ''doors'' = exampleDoors \<and> 0 \<le> pm_width exampleDataset"
    by (simp add: exampleDataset_def example_widths) (simp add: datasetWithDoors_def)
  have ov: "overlappingDoors =
        [(rawArea 1 5 5)\<lparr>pa_destination := Some 2\<rparr>,
         (rawArea 2 10 10)\<lparr>pa_orientation := Some ''u''\<rparr>] @ ?d3 # [rawArea 4 1 1] \<and>
      pa_destination ?d3 = Some 4 \<and> (4::int) \<noteq> 0 \<and>
      find (\<lambda>cloneDoor. pa_id cloneDoor = 4) overlappingDoors = Some (rawArea 4 1 1) \<and>
      (\<forall>later\<in>set [rawArea 4 1 1].
          resolvable overlappingDoors later \<longrightarrow> tileIndex ?m later \<noteq> tileIndex ?m ?d3)"
    by (simp add: overlappingDoors_def rawArea_def resolvable_def)
  have ix: "tileIndex ?m ?d3 = 105"
    by (simp add: coordToIndex_def example_widths rawArea_def)
  have no: "\<not> (\<exists>door\<in>set overlappingDoors.
      resolvable overlappingDoors door \<and> tileIndex ?m door = 210)"
    by (simp add: overlappingDoors_def rawArea_def resolvable_def coordToIndex_def example_widths)
  note th1 = loadDoors_table [where pm = exampleDataset and areasIndex = exampleAreasIndex]
  note th2 = loadDoors_table [where m = ?m and ds = overlappingDoors and i = 210
      and before = "[(rawArea 1 5 5)\<lparr>pa_destination := Some 2\<rparr>,
                     (rawArea 2 10 10)\<lparr>pa_orientation := Some ''u''\<rparr>]"
      and door = ?d3 and after = "[rawArea 4 1 1]" and k = 4 and dest = "rawArea 4 1 1"]
  have e1: "getDoor (new_Map exampleAreasIndex exampleDataset) 5 5 =
     Some \<lparr>pd_x = 10, pd_y = 10, pd_orientation = ''u'', pd_quest = [],
           pd_achievement = [], pd_stage = 0\<rparr>"
    and e2: "\<not> isDoor (new_Map exampleAreasIndex exampleDataset) 10 10"
    using th1 ex by blast+
  have e3: "ls_doors (linkDoors ?m overlappingDoors) (tileIndex ?m ?d3) =
      Some \<lparr>pd_x = pa_x (rawArea 4 1 1), pd_y = pa_y (rawArea 4 1 1),
            pd_orientation = or_string (pa_orientation (rawArea 4 1 1)) ''d'',
            pd_quest = or_string (pa_quest ?d3) [],
            pd_achievement = or_string (pa_achievement ?d3) [],
            pd_stage = or_number (pa_stage ?d3) 0\<rparr>"
    using th2 ov by blast
  have e4: "ls_doors (linkDoors ?m overlappingDoors) 210 = None"
    using th2 no by blast
  from e3 have e3': "ls_doors (linkDoors ?m overlappingDoors) 105 =
     Some \<lparr>pd_x = 1, pd_y = 1, pd_orientation = ''d'', pd_quest = [],
           pd_achievement = [], pd_stage = 0\<rparr>"
    unfolding ix by (simp add: rawArea_def or_string_def or_number_def)
  from e1 e2 e3' e4 show ?thesis
    by (intro conjI)
qed

text \<open>
  The claim C1 as stated fails in two ways. With two doors on the tile \<open>(5, 5)\<close> the
  first one is resolvable, with destination door 2 at \<open>(10, 10)\<close>, but the entry under its
  tile index is the one the later door wrote, leading to \<open>(1, 1)\<close>. And a door that
  declares the destination \<open>0\<close> gets no entry although a door has the identifier \<open>0\<close>:
  the guard \<^verbatim>\<open>!door.destination\<close> takes \<open>0\<close> for a missing destination.
\<close>

theorem loadDoors_claim_counterexample:
  "resolvable overlappingDoors ((rawArea 1 5 5)\<lparr>pa_destination := Some 2\<rparr>) \<and>
   (rawArea 1 5 5)\<lparr>pa_destination := Some 2\<rparr> \<in> set overlappingDoors \<and>
   getDoor (new_Map exampleAreasIndex (datasetWithDoors overlappingDoors)) 5 5 =
     Some \<lparr>pd_x = 1, pd_y = 1, pd_orientation = ''d'', pd_quest = [],
           pd_achievement = [], pd_stage = 0\<rparr> \<and>
   (rawArea 1 5 5)\<lparr>pa_destination := Some 0\<rparr> \<in> set zeroIdDoors \<and>
   0 \<in> pa_id ` set zeroIdDoors \<and>
   \<not> isDoor (new_Map exampleAreasIndex (datasetWithDoors zeroIdDoors)) 5 5"
  by (simp add: resolvable_def overlappingDoors_def zeroIdDoors_def rawArea_def
        getDoor_def isDoor_def new_Map_doors example_widths coordToIndex_def
        linkDoors_def cloneDeep_def linkDoor_def falsy_number_def or_string_def or_number_def)






end
